theory Spec2Isabelle
  imports Main
begin

section \<open>The Python runtime as far as command\_builder.py uses it\<close>

text \<open>
  Values that a conversion or a handler can produce. Floats and instances of user classes
  stay abstract (\<open>'f\<close> and \<open>'o\<close>); \<open>PNone\<close> is Python's \<open>None\<close>.
\<close>

datatype ('f, 'o) pyval = PNone | PInt int | PFloat 'f | PBool bool | PStr string | PObj 'o

text \<open>
  The members of a declared type list: the four builtins that \<open>try_convert\<close> compares
  against, and anything else (\<open>'c\<close>: a user class, a function, or an object that is not
  callable at all).
\<close>

datatype 'c pytype = TInt | TFloat | TBool | TStr | TOther 'c

text \<open>
  Exceptions. \<open>Raised name\<close> is any other exception, raised by user code. The conversions
  are taken to raise subclasses of \<open>Exception\<close> only, which is what \<open>try_convert\<close> catches.
\<close>

datatype error = ValueError | TypeError | Raised string

text \<open>
  A matcher is a plain string or a compiled pattern; a string never equals a pattern.
  Equality on \<open>'p\<close> stands for Python's \<open>==\<close> on compiled patterns.
\<close>

datatype 'p matcher = Str string | Pattern 'p

text \<open>
  What the code calls but does not define:
  \<^item> \<open>re_match p s\<close> is \<open>p.match(s)\<close>: \<open>None\<close> when the pattern does not match at the start
    of \<open>s\<close>, otherwise \<open>match.groups()\<close>, where a group that took no part in the match is
    \<open>None\<close>;
  \<^item> \<open>int_str s\<close> and \<open>float_str s\<close> are \<open>int(s)\<close> and \<open>float(s)\<close> on a string, \<open>None\<close> when
    they raise \<open>ValueError\<close>;
  \<^item> \<open>is_class c\<close> is \<open>isinstance(c, type)\<close>, \<open>is_callable c\<close> is \<open>hasattr(c, "__call__")\<close>,
    and \<open>construct c item\<close> is the call \<open>c(item)\<close>, which returns a value or raises.
\<close>

record ('p, 'c, 'f, 'o) runtime =
  re_match :: "'p \<Rightarrow> string \<Rightarrow> string option list option"
  int_str :: "string \<Rightarrow> int option"
  float_str :: "string \<Rightarrow> 'f option"
  is_class :: "'c \<Rightarrow> bool"
  is_callable :: "'c \<Rightarrow> bool"
  construct :: "'c \<Rightarrow> string option \<Rightarrow> error + ('f, 'o) pyval"

text \<open>The builtin conversions on a captured group, which is a string or \<open>None\<close>.\<close>

definition py_int :: "('p, 'c, 'f, 'o) runtime \<Rightarrow> string option \<Rightarrow> error + ('f, 'o) pyval" where
  "py_int rt item =
     (case item of
        None \<Rightarrow> Inl TypeError
      | Some s \<Rightarrow> (case int_str rt s of None \<Rightarrow> Inl ValueError | Some n \<Rightarrow> Inr (PInt n)))"

definition py_float :: "('p, 'c, 'f, 'o) runtime \<Rightarrow> string option \<Rightarrow> error + ('f, 'o) pyval" where
  "py_float rt item =
     (case item of
        None \<Rightarrow> Inl TypeError
      | Some s \<Rightarrow> (case float_str rt s of None \<Rightarrow> Inl ValueError | Some x \<Rightarrow> Inr (PFloat x)))"

definition py_bool :: "string option \<Rightarrow> ('f, 'o) pyval" where
  "py_bool item = (case item of None \<Rightarrow> PBool False | Some s \<Rightarrow> PBool (s \<noteq> []))"

definition py_str :: "string option \<Rightarrow> ('f, 'o) pyval" where
  "py_str item = (case item of None \<Rightarrow> PStr ''None'' | Some s \<Rightarrow> PStr s)"

section \<open>CommandBuilder\<close>

type_synonym ('p, 'c, 'h) entry = "'p matcher \<times> 'c pytype list option \<times> 'h"

record ('p, 'c, 'h) builder =
  commands :: "('p, 'c, 'h) entry list"

text \<open>
  Every method takes \<open>self\<close> and returns its result together with \<open>self\<close> afterwards.
\<close>

definition init :: "('p, 'c, 'h) builder" where
  "init = \<lparr>commands = []\<rparr>"

definition add_command ::
  "('p, 'c, 'h) builder \<Rightarrow> 'p matcher \<Rightarrow> 'c pytype list option \<Rightarrow> 'h \<Rightarrow> bool \<times> ('p, 'c, 'h) builder" where
  "add_command self regex types func =
     (if length (filter (\<lambda>e. fst e = regex) (commands self)) = 0
      then (True, self\<lparr>commands := commands self @ [(regex, types, func)]\<rparr>)
      else (False, self))"

definition remove_command ::
  "('p, 'c, 'h) builder \<Rightarrow> 'p matcher \<Rightarrow> bool \<times> ('p, 'c, 'h) builder" where
  "remove_command self regex =
     (let commands' = filter (\<lambda>c. fst c \<noteq> regex) (commands self);
          result = (commands' = commands self)
      in (result, self\<lparr>commands := commands'\<rparr>))"

subsection \<open>type\_check\<close>

text \<open>
  \<open>try_convert\<close>: the chain of comparisons picks a conversion; whatever exception it
  raises is caught and raised again as \<open>ValueError\<close>.
\<close>

definition try_convert ::
  "('p, 'c, 'f, 'o) runtime \<Rightarrow> string option \<Rightarrow> 'c pytype \<Rightarrow> error + ('f, 'o) pyval" where
  "try_convert rt item target_type =
     (case (case target_type of
              TInt \<Rightarrow> py_int rt item
            | TFloat \<Rightarrow> py_float rt item
            | TBool \<Rightarrow> Inr (py_bool item)
            | TStr \<Rightarrow> Inr (py_str item)
            | TOther c \<Rightarrow>
                if is_class rt c then construct rt c item
                else if is_callable rt c then construct rt c item
                else Inl ValueError) of
        Inl e \<Rightarrow> Inl ValueError
      | Inr v \<Rightarrow> Inr v)"

text \<open>
  The inner loop \<open>for target_type in target_types\<close> for one item: \<open>Inr (Some v)\<close> is the
  \<open>break\<close> after appending \<open>v\<close>, \<open>Inr None\<close> is the loop running out with nothing
  appended, \<open>Inl e\<close> is an exception leaving the loop.
\<close>

fun type_check_inner ::
  "('p, 'c, 'f, 'o) runtime \<Rightarrow> string option \<Rightarrow> 'c pytype list \<Rightarrow> error + ('f, 'o) pyval option" where
  "type_check_inner rt item [] = Inr None"
| "type_check_inner rt item (target_type # target_types) =
     (case try_convert rt item target_type of
        Inl e \<Rightarrow> Inl e
      | Inr converted_item \<Rightarrow>
          if converted_item \<noteq> PNone then Inr (Some converted_item)
          else type_check_inner rt item target_types)"

text \<open>The outer loop \<open>for item in input_list\<close>, with \<open>result\<close> as accumulator.\<close>

fun type_check_outer ::
  "('p, 'c, 'f, 'o) runtime \<Rightarrow> string option list \<Rightarrow> 'c pytype list \<Rightarrow> ('f, 'o) pyval list
     \<Rightarrow> error + ('f, 'o) pyval list" where
  "type_check_outer rt [] target_types result = Inr result"
| "type_check_outer rt (item # input_list) target_types result =
     (case type_check_inner rt item target_types of
        Inl e \<Rightarrow> Inl e
      | Inr None \<Rightarrow> type_check_outer rt input_list target_types result
      | Inr (Some converted_item) \<Rightarrow>
          type_check_outer rt input_list target_types (result @ [converted_item]))"

definition type_check ::
  "('p, 'c, 'f, 'o) runtime \<Rightarrow> string option list \<Rightarrow> 'c pytype list option
     \<Rightarrow> error + ('f, 'o) pyval list" where
  "type_check rt input_list target_types =
     (case target_types of
        None \<Rightarrow> if length input_list = 0 then Inr [] else Inl ValueError
      | Some tts \<Rightarrow> type_check_outer rt input_list tts [])"

subsection \<open>get, handle and the call operator\<close>

text \<open>
  The body of the \<open>try\<close> in \<open>get\<close> for one entry: \<open>Inr (Some r)\<close> is \<open>return r\<close>,
  \<open>Inr None\<close> is reaching the end of the body or \<open>continue\<close>, \<open>Inl e\<close> is an exception.
\<close>

definition get_body ::
  "('p, 'c, 'f, 'o) runtime \<Rightarrow> ('p, 'c, 'h) entry \<Rightarrow> string
     \<Rightarrow> error + ('h \<times> ('f, 'o) pyval list option) option" where
  "get_body rt e command =
     (case e of (regex, types, func) \<Rightarrow>
        (case regex of
           Pattern p \<Rightarrow>
             (case re_match rt p command of
                Some groups \<Rightarrow>
                  (case type_check rt groups types of
                     Inl err \<Rightarrow> Inl err
                   | Inr args \<Rightarrow> Inr (Some (func, Some args)))
              | None \<Rightarrow> Inr None)
         | Str s \<Rightarrow> if s = command then Inr (Some (func, None)) else Inr None))"

text \<open>
  The loop over \<open>self.commands\<close>; \<open>except ValueError\<close> catches that exception only.
\<close>

fun get_loop ::
  "('p, 'c, 'f, 'o) runtime \<Rightarrow> ('p, 'c, 'h) entry list \<Rightarrow> string
     \<Rightarrow> error + ('h option \<times> ('f, 'o) pyval list option)" where
  "get_loop rt [] command = Inr (None, None)"
| "get_loop rt (e # rest) command =
     (case get_body rt e command of
        Inl err \<Rightarrow> if err = ValueError then get_loop rt rest command else Inl err
      | Inr None \<Rightarrow> get_loop rt rest command
      | Inr (Some (func, args)) \<Rightarrow> Inr (Some func, args))"

definition get ::
  "('p, 'c, 'f, 'o) runtime \<Rightarrow> ('p, 'c, 'h) builder \<Rightarrow> string
     \<Rightarrow> (error + ('h option \<times> ('f, 'o) pyval list option)) \<times> ('p, 'c, 'h) builder" where
  "get rt self command = (get_loop rt (commands self) command, self)"

text \<open>
  \<open>handle\<close>. A handler is called through \<open>call\<close>: \<open>call func args self\<close> is \<open>func(*args)\<close> on
  a list of arguments, run while the registry is \<open>self\<close>. It gives the value or the
  exception of the call and the registry afterwards, since the body of a handler may hold
  the registry and call \<open>add_command\<close> or \<open>remove_command\<close> on it. Unpacking \<open>*params\<close>
  when \<open>params\<close> is \<open>None\<close> raises \<open>TypeError\<close> before the handler runs.
\<close>

type_synonym ('p, 'c, 'f, 'o, 'h) caller =
  "'h \<Rightarrow> ('f, 'o) pyval list \<Rightarrow> ('p, 'c, 'h) builder
     \<Rightarrow> (error + ('f, 'o) pyval) \<times> ('p, 'c, 'h) builder"

definition handle ::
  "('p, 'c, 'f, 'o) runtime \<Rightarrow> ('p, 'c, 'f, 'o, 'h) caller
     \<Rightarrow> ('p, 'c, 'h) builder \<Rightarrow> string
     \<Rightarrow> (error + bool \<times> ('f, 'o) pyval) \<times> ('p, 'c, 'h) builder" where
  "handle rt call self command =
     (case get rt self command of
        (Inl err, self') \<Rightarrow> (Inl err, self')
      | (Inr (func, params), self') \<Rightarrow>
          (case func of
             Some f \<Rightarrow>
               (case params of
                  None \<Rightarrow> (Inl TypeError, self')
                | Some args \<Rightarrow>
                    (case call f args self' of
                       (Inl err, self'') \<Rightarrow> (Inl err, self'')
                     | (Inr v, self'') \<Rightarrow> (Inr (True, v), self'')))
           | None \<Rightarrow> (Inr (False, PNone), self')))"

definition run ::
  "('p, 'c, 'f, 'o, 'h) caller \<Rightarrow> ('p, 'c, 'h) builder \<Rightarrow> 'h \<Rightarrow> ('f, 'o) pyval list
     \<Rightarrow> (error + ('f, 'o) pyval) \<times> ('p, 'c, 'h) builder" where
  "run call self func args = call func args self"

definition builder_call ::
  "('p, 'c, 'f, 'o) runtime \<Rightarrow> ('p, 'c, 'f, 'o, 'h) caller
     \<Rightarrow> ('p, 'c, 'h) builder \<Rightarrow> string
     \<Rightarrow> (error + bool \<times> ('f, 'o) pyval) \<times> ('p, 'c, 'h) builder" where
  "builder_call rt call self command = handle rt call self command"

subsection \<open>repr\<close>

text \<open>Decimal digits of a natural number, as an f-string prints an \<open>int\<close>.\<close>

fun str_nat :: "nat \<Rightarrow> string" where
  "str_nat n =
     (if n < 10 then [''0123456789'' ! n]
      else str_nat (n div 10) @ [''0123456789'' ! (n mod 10)])"

declare str_nat.simps [simp del]

definition repr :: "('p, 'c, 'h) builder \<Rightarrow> string" where
  "repr self =
     (let command_count = length (commands self)
      in ''<CommandBuilder commands: '' @ str_nat command_count @ '' command''
           @ (if command_count = 1 then ''s'' else '''') @ ''>'')"

section \<open>Acceptance of an input by a single entry\<close>

text \<open>
  An entry accepts an input when a registry holding that entry alone resolves the input:
  its pattern matches and the captured groups pass \<open>type_check\<close>, or its string equals
  the input.
\<close>

definition accepts :: "('p, 'c, 'f, 'o) runtime \<Rightarrow> ('p, 'c, 'h) entry \<Rightarrow> string \<Rightarrow> bool" where
  "accepts rt e command =
     (case get_body rt e command of Inl err \<Rightarrow> False | Inr None \<Rightarrow> False | Inr (Some r) \<Rightarrow> True)"

section \<open>Reachable registries\<close>

text \<open>
  The registries that a sequence of \<open>add_command\<close> and \<open>remove_command\<close> calls builds from
  the empty one of \<open>__init__\<close>.
\<close>

inductive reachable :: "('p, 'c, 'h) builder \<Rightarrow> bool" where
  reachable_init: "reachable init"
| reachable_add: "reachable self \<Longrightarrow> reachable (snd (add_command self regex types func))"
| reachable_remove: "reachable self \<Longrightarrow> reachable (snd (remove_command self regex))"

section \<open>A concrete runtime for the examples\<close>

text \<open>
  The driver under \<open>__main__\<close> registers patterns of the shapes \<open>echo (.*)\<close> and
  \<open>add (.*) (.*)\<close>: a literal text followed by one greedy group, or by two of them with a
  space between.
  \<^item> \<open>Literal_then_group lit\<close> is the pattern \<open>re.compile(re.escape(lit) + '(.*)')\<close>: it
    matches when the input starts with \<open>lit\<close>, and the group takes the rest of the input up
    to the first line feed, which \<open>.\<close> does not match.
  \<^item> \<open>Literal_then_two_groups lit\<close> is the pattern
    \<open>re.compile(re.escape(lit) + '(.*) (.*)')\<close>: it matches when the input starts with
    \<open>lit\<close> and the rest of its first line holds a space; the first group, being greedy,
    runs up to the last space of that line and the second group is what follows it.
\<close>

datatype demo_pattern = Literal_then_group string | Literal_then_two_groups string

fun demo_match :: "demo_pattern \<Rightarrow> string \<Rightarrow> string option list option" where
  "demo_match (Literal_then_group lit) s =
     (if take (length lit) s = lit
      then Some [Some (takeWhile (\<lambda>c. c \<noteq> CHR 0x0A) (drop (length lit) s))]
      else None)"
| "demo_match (Literal_then_two_groups lit) s =
     (let line = takeWhile (\<lambda>c. c \<noteq> CHR 0x0A) (drop (length lit) s)
      in if take (length lit) s = lit \<and> CHR '' '' \<in> set line
         then Some [Some (rev (tl (dropWhile (\<lambda>c. c \<noteq> CHR '' '') (rev line)))),
                    Some (rev (takeWhile (\<lambda>c. c \<noteq> CHR '' '') (rev line)))]
         else None)"

text \<open>
  \<open>int()\<close> on the strings the examples use: an optional sign and one or more ASCII digits.
  Every other string is rejected here; \<open>int()\<close> itself also accepts surrounding white space
  and underscores between digits, which no example contains.
\<close>

definition is_digit :: "char \<Rightarrow> bool" where
  "is_digit c = (c \<in> set ''0123456789'')"

definition digits_value :: "string \<Rightarrow> nat" where
  "digits_value ds = foldl (\<lambda>acc c. 10 * acc + (of_char c - 48)) 0 ds"

definition demo_int :: "string \<Rightarrow> int option" where
  "demo_int s =
     (case s of
        [] \<Rightarrow> None
      | c # ds \<Rightarrow>
          if c = CHR ''-'' then
            (if ds \<noteq> [] \<and> list_all is_digit ds then Some (- int (digits_value ds)) else None)
          else if c = CHR ''+'' then
            (if ds \<noteq> [] \<and> list_all is_digit ds then Some (int (digits_value ds)) else None)
          else if list_all is_digit s then Some (int (digits_value s)) else None)"

text \<open>
  The example runtime: floats are kept to the integral values that digit strings denote,
  and the only declared type besides the builtins is an object that is not callable.
\<close>

definition demo_rt :: "(demo_pattern, unit, int, unit) runtime" where
  "demo_rt =
     \<lparr>re_match = demo_match, int_str = demo_int, float_str = demo_int,
      is_class = (\<lambda>c. False), is_callable = (\<lambda>c. False),
      construct = (\<lambda>c item. Inl TypeError)\<rparr>"

text \<open>
  The handlers of the driver as far as the examples call them: \<open>Echo\<close> is
  \<open>lambda s: print(s)\<close>, which returns \<open>None\<close>; \<open>Add\<close> and \<open>Sub\<close> are
  \<open>lambda a, b: int(a) + int(b)\<close> and \<open>lambda a, b: int(a) - int(b)\<close> on two integers;
  \<open>Exit\<close> is the handler registered under \<open>"exit"\<close>. None of them touches the registry.
  \<open>Remove\<close> is a handler that does: \<open>lambda s: builder.remove_command(s)\<close>, where
  \<open>builder\<close> is the registry it is registered in. A call with the wrong number of
  arguments raises \<open>TypeError\<close>; the examples make no other call.
\<close>

datatype demo_handler = Echo | Add | Sub | Exit | Remove

type_synonym demo_builder = "(demo_pattern, unit, demo_handler) builder"

fun demo_call ::
  "demo_handler \<Rightarrow> (int, unit) pyval list \<Rightarrow> demo_builder
     \<Rightarrow> (error + (int, unit) pyval) \<times> demo_builder" where
  "demo_call Echo [s] builder = (Inr PNone, builder)"
| "demo_call Add [PInt a, PInt b] builder = (Inr (PInt (a + b)), builder)"
| "demo_call Sub [PInt a, PInt b] builder = (Inr (PInt (a - b)), builder)"
| "demo_call Exit [] builder = (Inl (Raised ''SystemExit''), builder)"
| "demo_call Remove [PStr s] builder =
     (Inr (PBool (fst (remove_command builder (Str s)))), snd (remove_command builder (Str s)))"
| "demo_call func args builder = (Inl TypeError, builder)"

section \<open>Exceptions that leave the conversions and the search\<close>

lemma try_convert_raises_ValueError:
  "try_convert rt item target_type = Inl e \<Longrightarrow> e = ValueError"
  by (auto simp: try_convert_def split: sum.splits)

lemma type_check_inner_raises_ValueError:
  "type_check_inner rt item tts = Inl e \<Longrightarrow> e = ValueError"
  by (induction tts) (auto split: sum.splits if_splits dest: try_convert_raises_ValueError)

lemma type_check_outer_raises_ValueError:
  "type_check_outer rt input_list tts result = Inl e \<Longrightarrow> e = ValueError"
  by (induction input_list arbitrary: result)
     (auto split: sum.splits option.splits dest: type_check_inner_raises_ValueError)

lemma type_check_raises_ValueError:
  "type_check rt input_list target_types = Inl e \<Longrightarrow> e = ValueError"
  by (auto simp: type_check_def split: option.splits if_splits
           dest: type_check_outer_raises_ValueError)

lemma get_body_raises_ValueError:
  "get_body rt e command = Inl err \<Longrightarrow> err = ValueError"
  by (auto simp: get_body_def split: prod.splits matcher.splits option.splits sum.splits if_splits
           dest: type_check_raises_ValueError)


lemma get_loop_skip:
  "\<not> accepts rt e command \<Longrightarrow> get_loop rt (e # rest) command = get_loop rt rest command"
  by (auto simp: accepts_def split: sum.splits option.splits dest: get_body_raises_ValueError)

lemma get_loop_skip_prefix:
  "list_all (\<lambda>e. \<not> accepts rt e command) pre \<Longrightarrow>
   get_loop rt (pre @ rest) command = get_loop rt rest command"
  by (induction pre) (simp_all add: get_loop_skip del: get_loop.simps)

lemma get_loop_accept:
  "accepts rt e command \<Longrightarrow> get_loop rt (e # rest) command = get_loop rt [e] command"
  by (auto simp: accepts_def split: sum.splits option.splits)

lemma get_loop_accept_handler:
  "accepts rt e command \<Longrightarrow> \<exists>args. get_loop rt [e] command = Inr (Some (snd (snd e)), args)"
  by (cases e) (auto simp: accepts_def get_body_def split: sum.splits option.splits matcher.splits if_splits)

lemma type_check_inner_bool:
  "type_check_inner rt item (TBool # ts) = Inr (Some (py_bool item))"
  by (simp add: try_convert_def py_bool_def split: option.splits)

lemma type_check_outer_bool:
  "type_check_outer rt groups (TBool # ts) result = Inr (result @ map py_bool groups)"
  by (induction groups arbitrary: result) (simp_all add: type_check_inner_bool del: type_check_inner.simps)

lemma distinct_add_command:
  "distinct (map fst (commands self)) \<Longrightarrow>
   distinct (map fst (commands (snd (add_command self regex types func))))"
  by (auto simp: add_command_def filter_empty_conv)

lemma distinct_remove_command:
  "distinct (map fst (commands self)) \<Longrightarrow>
   distinct (map fst (commands (snd (remove_command self regex))))"
  by (simp add: remove_command_def Let_def distinct_map_filter)

lemma reachable_distinct: "reachable self \<Longrightarrow> distinct (map fst (commands self))"
  by (induction rule: reachable.induct)
     (simp_all add: init_def distinct_add_command distinct_remove_command)



lemma get_loop_some:
  "\<not> list_all (\<lambda>e. \<not> accepts rt e command) cmds \<Longrightarrow>
   \<exists>regex types func args. (regex, types, func) \<in> set cmds \<and> accepts rt (regex, types, func) command
      \<and> get_loop rt cmds command = Inr (Some func, args)"
proof (induction cmds)
  case Nil
  then show ?case by simp
next
  case (Cons e rest)
  show ?case
  proof (cases "accepts rt e command")
    case True
    obtain regex types func where e: "e = (regex, types, func)"
      by (cases e) auto
    from True obtain args where "get_loop rt [e] command = Inr (Some (snd (snd e)), args)"
      using get_loop_accept_handler by blast
    with True e have "get_loop rt (e # rest) command = Inr (Some func, args)"
      using get_loop_accept [of rt e command rest] by simp
    with True e show ?thesis by auto
  next
    case False
    with Cons.prems have "\<not> list_all (\<lambda>e. \<not> accepts rt e command) rest" by simp
    from Cons.IH [OF this] obtain regex types func args where
      "(regex, types, func) \<in> set rest" "accepts rt (regex, types, func) command"
      "get_loop rt rest command = Inr (Some func, args)" by blast
    with False show ?thesis
      using get_loop_skip [of rt e command rest] by auto
  qed
qed

lemma get_loop_pattern:
  "re_match rt p command = Some groups \<Longrightarrow> type_check rt groups types = Inr args \<Longrightarrow>
   get_loop rt ((Pattern p, types, func) # rest) command = Inr (Some func, Some args)"
  by (simp add: get_body_def)

lemma get_loop_str:
  "get_loop rt ((Str command, types, func) # rest) command = Inr (Some func, None)"
  by (simp add: get_body_def)

lemma handle_resolved:
  "get_loop rt (commands self) command = Inr (Some f, Some args) \<Longrightarrow>
   fst (handle rt call self command)
     = (case fst (call f args self) of Inl err \<Rightarrow> Inl err | Inr v \<Rightarrow> Inr (True, v))
   \<and> snd (handle rt call self command) = snd (call f args self)"
  by (simp add: handle_def get_def split: prod.splits sum.splits)

lemma handle_unpack_None:
  "get_loop rt (commands self) command = Inr (Some f, None) \<Longrightarrow>
   handle rt call self command = (Inl TypeError, self)"
  by (simp add: handle_def get_def)

lemma handle_not_found:
  "get_loop rt (commands self) command = Inr (None, params) \<Longrightarrow>
   handle rt call self command = (Inr (False, PNone), self)"
  by (simp add: handle_def get_def)

lemma accepts_Pattern:
  "accepts rt (Pattern p, types, func) command
     = (\<exists>groups args. re_match rt p command = Some groups \<and> type_check rt groups types = Inr args)"
  by (auto simp: accepts_def get_body_def split: option.splits sum.splits)

lemma accepts_Str: "accepts rt (Str s, types, func) command = (s = command)"
  by (simp add: accepts_def get_body_def)


lemma get_loop_first_pattern:
  "list_all (\<lambda>e. \<not> accepts rt e command) pre \<Longrightarrow> re_match rt p command = Some groups \<Longrightarrow>
   type_check rt groups types = Inr args \<Longrightarrow>
   get_loop rt (pre @ (Pattern p, types, func) # post) command = Inr (Some func, Some args)"
  using get_loop_skip_prefix [of rt command pre "(Pattern p, types, func) # post"]
        get_loop_pattern [of rt p command groups types args func post]
  by simp

lemma get_loop_first_str:
  "list_all (\<lambda>e. \<not> accepts rt e command) pre \<Longrightarrow>
   get_loop rt (pre @ (Str command, types, func) # post) command = Inr (Some func, None)"
  using get_loop_skip_prefix [of rt command pre "(Str command, types, func) # post"]
        get_loop_str [of rt command types func post]
  by simp

lemmas demo_simps =
  handle_def get_def get_body_def type_check_def try_convert_def py_int_def py_str_def
  py_bool_def demo_rt_def demo_int_def is_digit_def digits_value_def accepts_def

text \<open>
  Claim C1. The claim: when the first matching entry is an exact string, dispatch calls
  its handler and returns \<open>(True, result)\<close>. On the code, \<open>get\<close> returns \<open>(func, None)\<close> for
  such an entry, and \<open>handle\<close> then evaluates \<open>func(*None)\<close>, which raises \<open>TypeError\<close>
  before the handler runs. This holds for any registry whose first entry is the input
  string itself, and in particular for the driver's own \<open>"exit"\<close> command.
\<close>

theorem handle_exact_string_raises_TypeError:
  "fst (get rt \<lparr>commands = (Str command, types, func) # rest\<rparr> command) = Inr (Some func, None)
   \<and> fst (handle rt call \<lparr>commands = (Str command, types, func) # rest\<rparr> command) = Inl TypeError
   \<and> fst (handle demo_rt demo_call \<lparr>commands = [(Str ''exit'', None, Exit)]\<rparr> ''exit'')
       = Inl TypeError"
  by (simp add: handle_def get_def get_body_def)

text \<open>
  Claim C2. The claim: a captured string that fails to convert to one declared type is
  tried against the next one. On the code, \<open>try_convert\<close> raises \<open>ValueError\<close> on a failed
  conversion and the loop over the declared types does not catch it: with the types
  \<open>[int, str]\<close> the string \<open>x\<close> makes \<open>type_check\<close> raise, although \<open>str\<close> converts it and
  the list \<open>[str, int]\<close> succeeds.
\<close>

theorem type_check_raises_at_first_failing_type:
  "type_check demo_rt [Some ''x''] (Some [TInt, TStr]) = Inl ValueError
   \<and> try_convert demo_rt (Some ''x'') TStr = Inr (PStr ''x'')
   \<and> type_check demo_rt [Some ''x''] (Some [TStr, TInt]) = Inr [PStr ''x'']"
  by (simp add: demo_simps)

text \<open>
  Claim C3. The claim: \<open>remove_command\<close> returns \<open>True\<close> only if an entry was removed, and
  \<open>False\<close> when none was. On the code the result is \<open>commands == self.commands\<close>: it is
  \<open>True\<close> exactly when no entry has the given matcher, so removing the one entry of a
  registry returns \<open>False\<close> and removing from the empty registry returns \<open>True\<close>.
\<close>

theorem remove_command_result_inverted:
  "fst (remove_command self regex) = (regex \<notin> fst ` set (commands self))
   \<and> remove_command (\<lparr>commands = [(Str ''exit'', None, Exit)]\<rparr> :: demo_builder) (Str ''exit'')
       = (False, \<lparr>commands = []\<rparr>)
   \<and> remove_command (\<lparr>commands = []\<rparr> :: demo_builder) (Str ''exit'')
       = (True, \<lparr>commands = []\<rparr>)"
  by (auto simp: remove_command_def Let_def filter_id_conv)

text \<open>
  Claim C7. The claim: the summary uses the singular exactly for one registered command.
  On the code the letter \<open>s\<close> is appended exactly when the count is one: one command
  prints as \<open>1 commands\<close>, none as \<open>0 command\<close>, two as \<open>2 command\<close>.
\<close>

theorem repr_plural_inverted:
  "repr (\<lparr>commands = [(Str ''exit'', None, Exit)]\<rparr> :: demo_builder)
     = ''<CommandBuilder commands: 1 commands>''
   \<and> repr (\<lparr>commands = []\<rparr> :: demo_builder) = ''<CommandBuilder commands: 0 command>''
   \<and> repr (\<lparr>commands = [(Str ''exit'', None, Exit), (Str ''quit'', None, Exit)]\<rparr> :: demo_builder)
     = ''<CommandBuilder commands: 2 command>''"
  by (simp add: repr_def str_nat.simps)

text \<open>
  Claim C9. Calling the registry object on an input gives the same result, and leaves the
  same registry, as \<open>handle\<close> on that input.
\<close>

theorem builder_call_is_handle:
  "builder_call rt call self command = handle rt call self command"
  by (simp add: builder_call_def)




text \<open>
  Claim C5. In every reachable registry the matchers are pairwise distinct. \<open>add_command\<close>
  with a matcher that no entry has appends the entry and returns \<open>True\<close>; with a matcher
  that some entry has it returns \<open>False\<close> and leaves the registry as it was;
  \<open>remove_command\<close> keeps the matchers distinct. Adding two different new matchers succeeds
  both times, and adding the same matcher a second time fails.
\<close>

theorem no_duplicate_matchers:
  "(reachable self \<longrightarrow> distinct (map fst (commands self)))
   \<and> (regex \<notin> fst ` set (commands b) \<longrightarrow>
        add_command b regex types func
          = (True, b\<lparr>commands := commands b @ [(regex, types, func)]\<rparr>))
   \<and> (dup \<in> fst ` set (commands b) \<longrightarrow> add_command b dup types func = (False, b))
   \<and> (distinct (map fst (commands b)) \<longrightarrow>
        distinct (map fst (commands (snd (remove_command b regex)))))
   \<and> (m1 \<noteq> m2 \<and> m1 \<notin> fst ` set (commands b) \<and> m2 \<notin> fst ` set (commands b) \<longrightarrow>
        fst (add_command b m1 t1 f1) \<and> fst (add_command (snd (add_command b m1 t1 f1)) m2 t2 f2))
   \<and> \<not> fst (add_command (snd (add_command b m1 t1 f1)) m1 t2 f2)"
proof (intro conjI impI)
  assume "reachable self"
  then show "distinct (map fst (commands self))" by (rule reachable_distinct)
next
  assume "regex \<notin> fst ` set (commands b)"
  then show "add_command b regex types func
          = (True, b\<lparr>commands := commands b @ [(regex, types, func)]\<rparr>)"
    by (auto simp: add_command_def filter_empty_conv)
next
  assume "dup \<in> fst ` set (commands b)"
  then show "add_command b dup types func = (False, b)"
    by (auto simp: add_command_def filter_empty_conv)
next
  assume "distinct (map fst (commands b))"
  then show "distinct (map fst (commands (snd (remove_command b regex))))"
    by (rule distinct_remove_command)
next
  assume h: "m1 \<noteq> m2 \<and> m1 \<notin> fst ` set (commands b) \<and> m2 \<notin> fst ` set (commands b)"
  then show "fst (add_command b m1 t1 f1)"
    by (auto simp: add_command_def filter_empty_conv)
  from h show "fst (add_command (snd (add_command b m1 t1 f1)) m2 t2 f2)"
    by (auto simp: add_command_def filter_empty_conv)
next
  show "\<not> fst (add_command (snd (add_command b m1 t1 f1)) m1 t2 f2)"
    by (auto simp: add_command_def filter_empty_conv)
qed

theorem no_duplicate_matchers_witness:
  "distinct (map fst (commands (\<lparr>commands = [(Str ''exit'', None, Exit)]\<rparr> :: demo_builder)))
   \<and> add_command (\<lparr>commands = [(Str ''exit'', None, Exit)]\<rparr> :: demo_builder)
        (Pattern (Literal_then_group ''echo '')) (Some [TStr]) Echo
       = (True, \<lparr>commands = [(Str ''exit'', None, Exit),
                              (Pattern (Literal_then_group ''echo ''), Some [TStr], Echo)]\<rparr>)
   \<and> add_command (\<lparr>commands = [(Str ''exit'', None, Exit)]\<rparr> :: demo_builder)
        (Str ''exit'') (Some [TStr]) Echo
       = (False, \<lparr>commands = [(Str ''exit'', None, Exit)]\<rparr>)
   \<and> commands (snd (remove_command (\<lparr>commands = [(Str ''exit'', None, Exit)]\<rparr> :: demo_builder)
        (Pattern (Literal_then_group ''echo '')))) = [(Str ''exit'', None, Exit)]
   \<and> fst (add_command (\<lparr>commands = [(Str ''exit'', None, Exit)]\<rparr> :: demo_builder)
        (Str ''a'') None Add)
   \<and> fst (add_command (snd (add_command (\<lparr>commands = [(Str ''exit'', None, Exit)]\<rparr> :: demo_builder)
        (Str ''a'') None Add)) (Str ''b'') None Echo)
   \<and> \<not> fst (add_command (snd (add_command (\<lparr>commands = [(Str ''exit'', None, Exit)]\<rparr> :: demo_builder)
        (Str ''a'') None Add)) (Str ''a'') None Echo)"
proof -
  let ?b = "\<lparr>commands = [(Str ''exit'', None, Exit)]\<rparr> :: demo_builder"
  have "reachable (snd (add_command (init :: demo_builder) (Str ''exit'') None Exit))"
    by (rule reachable_add [OF reachable_init])
  then have r: "reachable ?b"
    by (simp add: add_command_def init_def)
  show ?thesis
    using r no_duplicate_matchers
      [of ?b "Pattern (Literal_then_group ''echo '')" ?b "Some [TStr]" Echo "Str ''exit''"
          "Str ''a''" "Str ''b''" None Add None Echo]
    by (simp add: add_command_def remove_command_def)
qed

text \<open>
  Claim C6. Entries are tried in registration order and the first that accepts the input
  wins. An entry accepts an input when its pattern matches and the groups pass
  \<open>type_check\<close>, or when its string equals the input. When no entry before
  \<open>(regex, types, func)\<close> accepts the input and that entry does, lookup on the whole
  registry gives what it gives on that entry alone, whatever is registered after it, and
  the handler resolved is \<open>func\<close>. For a pattern entry lookup returns \<open>func\<close> with the
  converted groups, and dispatch gives what the call of \<open>func\<close> on those arguments gives;
  for a string entry lookup returns \<open>func\<close> with no argument list, and dispatch raises
  \<open>TypeError\<close> on unpacking it.
\<close>

theorem first_registered_match_wins:
  "(list_all (\<lambda>e. \<not> accepts rt e command) pre \<and> accepts rt (regex, types, func) command \<longrightarrow>
      fst (get rt \<lparr>commands = pre @ (regex, types, func) # post\<rparr> command)
        = fst (get rt \<lparr>commands = [(regex, types, func)]\<rparr> command)
      \<and> (\<exists>params. fst (get rt \<lparr>commands = pre @ (regex, types, func) # post\<rparr> command)
            = Inr (Some func, params)))
   \<and> accepts rt (Pattern p, types, func) command
       = (\<exists>groups args. re_match rt p command = Some groups \<and> type_check rt groups types = Inr args)
   \<and> accepts rt (Str s, types, func) command = (s = command)
   \<and> (list_all (\<lambda>e. \<not> accepts rt e command) pre \<and> re_match rt p command = Some groups
        \<and> type_check rt groups types = Inr args \<longrightarrow>
      fst (get rt \<lparr>commands = pre @ (Pattern p, types, func) # post\<rparr> command)
        = Inr (Some func, Some args)
      \<and> fst (handle rt call \<lparr>commands = pre @ (Pattern p, types, func) # post\<rparr> command)
        = (case fst (call func args \<lparr>commands = pre @ (Pattern p, types, func) # post\<rparr>) of
             Inl err \<Rightarrow> Inl err | Inr v \<Rightarrow> Inr (True, v)))
   \<and> (list_all (\<lambda>e. \<not> accepts rt e command) pre \<longrightarrow>
      fst (get rt \<lparr>commands = pre @ (Str command, types, func) # post\<rparr> command)
        = Inr (Some func, None)
      \<and> fst (handle rt call \<lparr>commands = pre @ (Str command, types, func) # post\<rparr> command)
        = Inl TypeError)"
proof (intro conjI impI)
  assume h: "list_all (\<lambda>e. \<not> accepts rt e command) pre \<and> accepts rt (regex, types, func) command"
  let ?e = "(regex, types, func)"
  from h have "get_loop rt (pre @ ?e # post) command = get_loop rt (?e # post) command"
    using get_loop_skip_prefix by blast
  also from h have "\<dots> = get_loop rt [?e] command"
    using get_loop_accept by blast
  finally have eq: "get_loop rt (pre @ ?e # post) command = get_loop rt [?e] command" .
  then show "fst (get rt \<lparr>commands = pre @ ?e # post\<rparr> command)
        = fst (get rt \<lparr>commands = [?e]\<rparr> command)"
    by (simp add: get_def)
  from h obtain params where "get_loop rt [?e] command = Inr (Some func, params)"
    using get_loop_accept_handler [of rt ?e command] by auto
  with eq show "\<exists>params. fst (get rt \<lparr>commands = pre @ ?e # post\<rparr> command)
        = Inr (Some func, params)"
    by (simp add: get_def)
next
  show "accepts rt (Pattern p, types, func) command
       = (\<exists>groups args. re_match rt p command = Some groups \<and> type_check rt groups types = Inr args)"
    by (rule accepts_Pattern)
  show "accepts rt (Str s, types, func) command = (s = command)"
    by (rule accepts_Str)
next
  assume h: "list_all (\<lambda>e. \<not> accepts rt e command) pre \<and> re_match rt p command = Some groups
        \<and> type_check rt groups types = Inr args"
  let ?W = "\<lparr>commands = pre @ (Pattern p, types, func) # post\<rparr>"
  from h have g: "get_loop rt (commands ?W) command = Inr (Some func, Some args)"
    using get_loop_first_pattern [of rt command pre p groups types args func post] by simp
  then show "fst (get rt ?W command) = Inr (Some func, Some args)"
    by (simp add: get_def)
  from handle_resolved [OF g]
  show "fst (handle rt call ?W command)
        = (case fst (call func args ?W) of Inl err \<Rightarrow> Inl err | Inr v \<Rightarrow> Inr (True, v))"
    by simp
next
  assume h: "list_all (\<lambda>e. \<not> accepts rt e command) pre"
  let ?W = "\<lparr>commands = pre @ (Str command, types, func) # post\<rparr>"
  from h have g: "get_loop rt (commands ?W) command = Inr (Some func, None)"
    using get_loop_first_str [of rt command pre types func post] by simp
  then show "fst (get rt ?W command) = Inr (Some func, None)"
    by (simp add: get_def)
  from handle_unpack_None [OF g]
  show "fst (handle rt call ?W command) = Inl TypeError"
    by simp
qed

theorem first_registered_match_wins_witness:
  "\<not> accepts demo_rt (Str ''exit'', None, Exit) ''sub 3 4''
   \<and> accepts demo_rt (Pattern (Literal_then_two_groups ''sub ''), Some [TInt, TInt], Sub) ''sub 3 4''
   \<and> accepts demo_rt (Pattern (Literal_then_group ''sub''), Some [TStr], Echo) ''sub 3 4''
   \<and> re_match demo_rt (Literal_then_two_groups ''sub '') ''sub 3 4'' = Some [Some ''3'', Some ''4'']
   \<and> type_check demo_rt [Some ''3'', Some ''4''] (Some [TInt, TInt]) = Inr [PInt 3, PInt 4]
   \<and> fst (get demo_rt
        \<lparr>commands = [(Str ''exit'', None, Exit),
                     (Pattern (Literal_then_two_groups ''sub ''), Some [TInt, TInt], Sub),
                     (Pattern (Literal_then_group ''sub''), Some [TStr], Echo)]\<rparr> ''sub 3 4'')
       = Inr (Some Sub, Some [PInt 3, PInt 4])
   \<and> fst (handle demo_rt demo_call
        \<lparr>commands = [(Str ''exit'', None, Exit),
                     (Pattern (Literal_then_two_groups ''sub ''), Some [TInt, TInt], Sub),
                     (Pattern (Literal_then_group ''sub''), Some [TStr], Echo)]\<rparr> ''sub 3 4'')
       = Inr (True, PInt (- 1))
   \<and> fst (handle demo_rt demo_call
        \<lparr>commands = [(Pattern (Literal_then_group ''sub''), Some [TStr], Echo),
                     (Pattern (Literal_then_two_groups ''sub ''), Some [TInt, TInt], Sub)]\<rparr>
        ''sub 3 4'')
       = Inr (True, PNone)"
  using first_registered_match_wins
    [where rt = demo_rt and call = demo_call and command = "''sub 3 4''"
       and pre = "[(Str ''exit'', None, Exit)]"
       and regex = "Pattern (Literal_then_two_groups ''sub '')"
       and p = "Literal_then_two_groups ''sub ''" and types = "Some [TInt, TInt]" and func = Sub
       and post = "[(Pattern (Literal_then_group ''sub''), Some [TStr], Echo)]"
       and groups = "[Some ''3'', Some ''4'']" and args = "[PInt 3, PInt 4]" and s = "''exit''"]
  by (simp add: demo_simps)




text \<open>
  Claim C10. Converting a captured string to \<open>bool\<close> never fails: the result is \<open>False\<close>
  for the empty string and \<open>True\<close> for every other string, the text \<open>False\<close> included.
  When the first declared type is \<open>bool\<close>, \<open>type_check\<close> succeeds on every list of groups,
  so an entry with such a type list accepts an input exactly when its pattern matches,
  and lookup on a registry that starts with the entry resolves to it.
\<close>

theorem bool_conversion_never_fails:
  "try_convert rt (Some s) TBool = Inr (PBool (s \<noteq> []))
   \<and> try_convert rt (Some ''False'') TBool = Inr (PBool True)
   \<and> try_convert rt (Some []) TBool = Inr (PBool False)
   \<and> type_check rt groups (Some (TBool # ts)) = Inr (map py_bool groups)
   \<and> accepts rt (Pattern p, Some (TBool # ts), func) command = (re_match rt p command \<noteq> None)
   \<and> (re_match rt p command = Some gs \<longrightarrow>
        fst (get rt \<lparr>commands = (Pattern p, Some (TBool # ts), func) # rest\<rparr> command)
          = Inr (Some func, Some (map py_bool gs)))"
proof -
  have tc: "\<And>xs. type_check rt xs (Some (TBool # ts)) = Inr (map py_bool xs)"
    using type_check_outer_bool [of rt _ ts "[]"] by (simp add: type_check_def)
  show ?thesis
    by (auto simp: tc try_convert_def py_bool_def get_def get_body_def accepts_def
             split: option.splits)
qed

theorem bool_conversion_never_fails_witness:
  "re_match demo_rt (Literal_then_group ''say '') ''say False'' = Some [Some ''False'']
   \<and> try_convert demo_rt (Some ''False'') TBool = Inr (PBool True)
   \<and> fst (get demo_rt
        \<lparr>commands = [(Pattern (Literal_then_group ''say ''), Some [TBool, TInt], Echo),
                     (Pattern (Literal_then_group ''say''), Some [TStr], Add)]\<rparr> ''say False'')
       = Inr (Some Echo, Some [PBool True])"
  using bool_conversion_never_fails
    [of demo_rt "''False''" "[Some ''False'']" "[TInt]" "Literal_then_group ''say ''" Echo
        "''say False''" "[Some ''False'']"
        "[(Pattern (Literal_then_group ''say''), Some [TStr], Add)]"]
  by (simp add: demo_simps)

end
